theory Spec2Isabelle
  imports Complex_Main "HOL-Library.Sublist"
begin

section \<open>Exceptions\<close>

text \<open>
  The exception classes that occur; all of them derive from \<open>Exception\<close>, which is what
  every \<open>except\<close> clause of the program catches. \<open>RequestException\<close> stands for the
  errors of \<open>requests\<close> (connection errors, timeouts, HTTP errors). \<open>OperationalError\<close>
  and \<open>OverflowError\<close> are raised by \<open>sqlite3\<close>: the first when a statement fails, the second
  when an integer to be bound does not fit SQLite's 64-bit \<open>INTEGER\<close>.
\<close>

datatype exn =
  RequestException | JSONDecodeError | KeyError | TypeError | ValueError | AttributeError
  | OperationalError | OverflowError

section \<open>The store: \<open>database.py\<close>\<close>

text \<open>
  The table \<open>coins\<close> of \<open>initialize_database\<close> has the columns
  \<open>id, name, symbol, contract, price, holders, transfers_24h, last_updated\<close>.
  \<open>name\<close>, \<open>symbol\<close> and \<open>contract\<close> are \<open>NOT NULL\<close>; the other four are nullable, so
  they are options here (\<open>None\<close> is SQL \<open>NULL\<close>, Python \<open>None\<close>).

  A dictionary handed to \<open>update_coin_data\<close> has the five keys the statement binds:
  \<open>name, symbol, contract, price, last_updated\<close>. A row is that dictionary extended by
  \<open>holders\<close> and \<open>transfers_24h\<close>; it is also the dictionary \<open>search_coin\<close> returns.

  The surrogate key \<open>id\<close> is never read nor written by any statement of the program. It
  only fixes the order in which a table scan visits the rows (ascending rowid, which is
  insertion order with \<open>AUTOINCREMENT\<close> and no deletions). The store is therefore the list of
  its rows in that order.

  Strings are lists of \<open>char\<close>; the model is about ASCII text.
\<close>

record coin =
  name :: string
  symbol :: string
  contract :: string
  price :: "real option"
  last_updated :: "int option"

record coin_row = coin +
  holders :: "int option"
  transfers_24h :: "int option"

type_synonym store = "coin_row list"

text \<open>The column \<open>contract\<close>, row by row.\<close>

definition stored_contracts :: "store \<Rightarrow> string list" where
  "stored_contracts s = map contract s"

text \<open>
  \<open>get_all_contracts\<close>: \<open>SELECT contract FROM coins\<close>, without \<open>ORDER BY\<close>. SQLite returns
  the column in the order of the scan it chooses, which may be the table (by rowid) or the
  index of the \<open>UNIQUE\<close> column (by key). \<open>order\<close> is that rearrangement of the column.
\<close>

definition get_all_contracts :: "(string list \<Rightarrow> string list) \<Rightarrow> store \<Rightarrow> string list" where
  "get_all_contracts order s = order (stored_contracts s)"

text \<open>
  The invariant that \<open>contract TEXT UNIQUE\<close> maintains.
\<close>

definition unique_contracts :: "store \<Rightarrow> bool" where
  "unique_contracts s = distinct (stored_contracts s)"

text \<open>
  One execution of the statement in the loop of \<open>update_coin_data\<close>:
  \<open>INSERT INTO coins (name, symbol, contract, price, last_updated) VALUES (?, ?, ?, ?, ?)
   ON CONFLICT(contract) DO UPDATE SET name = excluded.name, symbol = excluded.symbol,
   price = excluded.price, last_updated = excluded.last_updated\<close>.
  A row with the same contract is updated in place in the four columns the \<open>SET\<close> clause
  lists; otherwise a new row is appended, its unlisted columns \<open>holders\<close> and
  \<open>transfers_24h\<close> being \<open>NULL\<close>.
\<close>

definition excluded_into :: "coin \<Rightarrow> coin_row \<Rightarrow> coin_row" where
  "excluded_into c r =
     r\<lparr>name := name c, symbol := symbol c, price := price c, last_updated := last_updated c\<rparr>"

definition inserted_row :: "coin \<Rightarrow> coin_row" where
  "inserted_row c =
     \<lparr>name = name c, symbol = symbol c, contract = contract c, price = price c,
      last_updated = last_updated c, holders = None, transfers_24h = None\<rparr>"

definition upsert_coin :: "coin \<Rightarrow> store \<Rightarrow> store" where
  "upsert_coin c s =
     (if contract c \<in> set (stored_contracts s)
      then map (\<lambda>r. if contract r = contract c then excluded_into c r else r) s
      else s @ [inserted_row c])"

text \<open>\<open>for coin in coins: cursor.execute(...)\<close>, then commit.\<close>

fun update_coin_data :: "coin list \<Rightarrow> store \<Rightarrow> store" where
  "update_coin_data [] s = s"
| "update_coin_data (c # cs) s = update_coin_data cs (upsert_coin c s)"

text \<open>
  \<open>update_coin_data\<close> describes a batch whose values \<open>sqlite3\<close> can bind, as those of the
  scraper are: their \<open>last_updated\<close> is \<open>int(time.time())\<close>.
\<close>

text \<open>
  \<open>update_blockchain_metrics\<close>:
  \<open>UPDATE coins SET holders = ?, transfers_24h = ?, last_updated = ? WHERE contract = ?\<close>.
  The three values are whatever Python objects the caller passes. \<open>sqlite3\<close> binds them
  before the statement runs: \<open>None\<close> binds \<open>NULL\<close>, and an integer outside the signed 64-bit
  range makes the binding raise \<open>OverflowError\<close>, whatever the contract; then nothing is
  written. An \<open>UPDATE\<close> whose \<open>WHERE\<close> selects no row changes nothing and is not an error.
  The result is how the call ended, together with the store after it.
\<close>

definition fits_int64 :: "int \<Rightarrow> bool" where
  "fits_int64 n = (- 9223372036854775808 \<le> n \<and> n \<le> 9223372036854775807)"

definition bindable :: "int option \<Rightarrow> bool" where
  "bindable v = (case v of None \<Rightarrow> True | Some n \<Rightarrow> fits_int64 n)"

definition update_blockchain_metrics ::
  "string \<Rightarrow> int option \<Rightarrow> int option \<Rightarrow> int option \<Rightarrow> store \<Rightarrow> (exn + unit) \<times> store" where
  "update_blockchain_metrics c h t ts s =
     (if bindable h \<and> bindable t \<and> bindable ts
      then (Inr (),
            map (\<lambda>r. if contract r = c
                      then r\<lparr>holders := h, transfers_24h := t, last_updated := ts\<rparr>
                      else r) s)
      else (Inl OverflowError, s))"

subsection \<open>The \<open>LIKE\<close> operator\<close>

text \<open>
  SQLite's \<open>LIKE\<close> without \<open>ESCAPE\<close>: in the pattern \<open>%\<close> matches any run of characters,
  also the empty one, \<open>_\<close> matches exactly one character, and every other character matches
  itself, upper and lower case of the ASCII letters being identified. \<open>like\<close> is this
  matching of a pattern against a text.

  SQLite reads both operands as C strings: pattern and text end at their first NUL
  character, whatever follows it. \<open>sql_like\<close> is the operator with that reading. Before it
  matches, SQLite compares the full length of the pattern in bytes with a limit, 50000
  unless configured otherwise, and fails the statement with \<open>LIKE or GLOB pattern too
  complex\<close> when the pattern is longer.
\<close>

definition ascii_lower :: "char \<Rightarrow> char" where
  "ascii_lower c =
     (case map_of (zip ''ABCDEFGHIJKLMNOPQRSTUVWXYZ'' ''abcdefghijklmnopqrstuvwxyz'') c of
        Some l \<Rightarrow> l
      | None \<Rightarrow> c)"

function like :: "string \<Rightarrow> string \<Rightarrow> bool" where
  "like [] t = (t = [])"
| "like (p # ps) [] = (p = CHR ''%'' \<and> like ps [])"
| "like (p # ps) (c # cs) =
     (if p = CHR ''%'' then like ps (c # cs) \<or> like (p # ps) cs
      else if p = CHR ''_'' then like ps cs
      else ascii_lower p = ascii_lower c \<and> like ps cs)"
  by pat_completeness auto
termination
  by (relation "measure (\<lambda>(p, t). length p + length t)") auto

definition c_string :: "string \<Rightarrow> string" where
  "c_string s = takeWhile (\<lambda>c. c \<noteq> CHR 0x00) s"

definition sql_like :: "string \<Rightarrow> string \<Rightarrow> bool" where
  "sql_like pattern text = like (c_string pattern) (c_string text)"

definition pattern_limit :: int where
  "pattern_limit = 50000"

text \<open>
  \<open>search_coin\<close>: \<open>SELECT ... FROM coins WHERE name LIKE ? OR symbol LIKE ?\<close> with both
  parameters bound to \<open>f'%{query}%'\<close>, then \<open>fetchone()\<close>: the first row of the scan that
  satisfies the condition, or \<open>None\<close>. The condition is evaluated row by row, so a pattern
  beyond the limit raises \<open>OperationalError\<close> as soon as there is a row to evaluate it on,
  and no row is returned then.
\<close>

definition search_pattern :: "string \<Rightarrow> string" where
  "search_pattern query = CHR ''%'' # query @ [CHR ''%'']"

definition row_matches :: "string \<Rightarrow> coin_row \<Rightarrow> bool" where
  "row_matches query r =
     (sql_like (search_pattern query) (name r) \<or> sql_like (search_pattern query) (symbol r))"

definition search_coin :: "string \<Rightarrow> store \<Rightarrow> exn + coin_row option" where
  "search_coin query s =
     (if s \<noteq> [] \<and> pattern_limit < int (length (search_pattern query))
      then Inl OperationalError
      else Inr (List.find (row_matches query) s))"

section \<open>The metrics pass: \<open>blockchain.py\<close>\<close>

subsection \<open>Python values\<close>

text \<open>
  The value \<open>response.json()\<close> returns. \<open>JObj\<close> carries the items of a dictionary, whose
  keys are distinct; numbers are integers (a JSON number with a fraction is outside the
  model).
\<close>

datatype json =
  JNull | JBool bool | JInt int | JStr string | JArr "json list" | JObj "(string \<times> json) list"

text \<open>\<open>v[key]\<close> for a string key: only a dictionary can be subscripted so.\<close>

fun subscript :: "json \<Rightarrow> string \<Rightarrow> exn + json" where
  "subscript (JObj kvs) key = (case map_of kvs key of None \<Rightarrow> Inl KeyError | Some v \<Rightarrow> Inr v)"
| "subscript v key = Inl TypeError"

text \<open>
  \<open>key in v\<close>. The program evaluates it only after \<open>v['status']\<close> has succeeded, that
  is, on a dictionary.
\<close>

fun has_key :: "json \<Rightarrow> string \<Rightarrow> bool" where
  "has_key (JObj kvs) key = (key \<in> set (map fst kvs))"
| "has_key v key = False"

text \<open>\<open>len(v)\<close>.\<close>

fun py_len :: "json \<Rightarrow> exn + int" where
  "py_len (JArr xs) = Inr (int (length xs))"
| "py_len (JStr s) = Inr (int (length s))"
| "py_len (JObj kvs) = Inr (int (length kvs))"
| "py_len v = Inl TypeError"

text \<open>Iteration \<open>for tx in v\<close>: a list yields its elements, a string its characters, a
  dictionary its keys.\<close>

fun py_iter :: "json \<Rightarrow> exn + json list" where
  "py_iter (JArr xs) = Inr xs"
| "py_iter (JStr s) = Inr (map (\<lambda>ch. JStr [ch]) s)"
| "py_iter (JObj kvs) = Inr (map (\<lambda>kv. JStr (fst kv)) kvs)"
| "py_iter v = Inl TypeError"

text \<open>
  Whitespace. \<open>str.strip()\<close> removes the characters for which \<open>str.isspace()\<close> holds, among
  the ASCII characters the blank, the five controls from tab to carriage return and the
  four separators \<open>0x1C\<close> to \<open>0x1F\<close>. \<open>int\<close> skips, around an ASCII literal, only the
  blank and the five controls.
\<close>

definition is_space :: "char \<Rightarrow> bool" where
  "is_space c = (c \<in> set [CHR '' '', CHR 0x09, CHR 0x0A, CHR 0x0B, CHR 0x0C, CHR 0x0D,
                          CHR 0x1C, CHR 0x1D, CHR 0x1E, CHR 0x1F])"

definition is_literal_space :: "char \<Rightarrow> bool" where
  "is_literal_space c = (c \<in> set [CHR '' '', CHR 0x09, CHR 0x0A, CHR 0x0B, CHR 0x0C, CHR 0x0D])"

definition trim :: "(char \<Rightarrow> bool) \<Rightarrow> string \<Rightarrow> string" where
  "trim blank s = rev (dropWhile blank (rev (dropWhile blank s)))"

definition strip :: "string \<Rightarrow> string" where
  "strip s = trim is_space s"

text \<open>
  \<open>int(s)\<close> for a string: surrounding whitespace is dropped, a sign may follow, then
  decimal digits, between which single underscores are allowed. A literal of more than
  4300 digits is refused (\<open>sys.int_info.default_max_str_digits\<close>).
\<close>

definition is_digit :: "char \<Rightarrow> bool" where
  "is_digit c = (c \<in> set ''0123456789'')"

definition digit_value :: "char \<Rightarrow> int" where
  "digit_value c = of_char c - 48"

definition digits_value :: "string \<Rightarrow> int" where
  "digits_value s = foldl (\<lambda>n c. 10 * n + digit_value c) 0 s"

fun grouped :: "string \<Rightarrow> bool" where
  "grouped [] = False"
| "grouped [c] = is_digit c"
| "grouped (c # d # cs) =
     (is_digit c \<and> (if d = CHR ''_'' then grouped cs else grouped (d # cs)))"

definition max_str_digits :: int where
  "max_str_digits = 4300"

definition decimal :: "string \<Rightarrow> exn + int" where
  "decimal s =
     (if grouped s \<and> int (length (filter is_digit s)) \<le> max_str_digits
      then Inr (digits_value (filter is_digit s)) else Inl ValueError)"

definition int_of_string :: "string \<Rightarrow> exn + int" where
  "int_of_string s =
     (case trim is_literal_space s of
        [] \<Rightarrow> Inl ValueError
      | c # cs \<Rightarrow>
          if c = CHR ''-'' then (case decimal cs of Inl e \<Rightarrow> Inl e | Inr n \<Rightarrow> Inr (- n))
          else if c = CHR ''+'' then decimal cs
          else decimal (c # cs))"

text \<open>\<open>int(v)\<close>.\<close>

fun py_int :: "json \<Rightarrow> exn + int" where
  "py_int (JInt n) = Inr n"
| "py_int (JBool b) = Inr (if b then 1 else 0)"
| "py_int (JStr s) = int_of_string s"
| "py_int v = Inl TypeError"

subsection \<open>The world outside\<close>

text \<open>
  What the pass obtains from outside the program.
  \<^item> \<open>scan_order\<close> is the order in which \<open>get_all_contracts\<close> lists the stored
    contracts.
  \<^item> \<open>holders_response c\<close> and \<open>transfers_response c\<close> are the outcome of
    \<open>requests.get(..., timeout=10)\<close> followed by \<open>response.json()\<close> for the two queries
    about contract \<open>c\<close>: an exception (\<open>Inl\<close>) or the decoded body. A pass asks each
    question once per contract, and the contracts of a pass are distinct.
  \<^item> \<open>clock n\<close> is \<open>int(time.time())\<close> at the \<open>n\<close>-th reading of the clock in the pass,
    counted from 0.
  \<^item> \<open>write_fault c\<close> is the exception, if any, with which the database write for \<open>c\<close>
    fails for a reason outside the program (a locked or unwritable database file). A
    failed write changes no row.
\<close>

record world =
  scan_order :: "string list \<Rightarrow> string list"
  holders_response :: "string \<Rightarrow> exn + json"
  transfers_response :: "string \<Rightarrow> exn + json"
  clock :: "nat \<Rightarrow> int"
  write_fault :: "string \<Rightarrow> exn option"

subsection \<open>The two queries\<close>

text \<open>The \<open>try\<close> block of \<open>fetch_holders_count\<close>.\<close>

definition holders_attempt :: "world \<Rightarrow> string \<Rightarrow> exn + int" where
  "holders_attempt w contract_address =
     (case holders_response w contract_address of
        Inl e \<Rightarrow> Inl e
      | Inr data \<Rightarrow>
          (case subscript data ''status'' of
             Inl e \<Rightarrow> Inl e
           | Inr status \<Rightarrow>
               if status = JStr ''1'' then
                 (if has_key data ''countTokenHolders'' then
                    (case subscript data ''countTokenHolders'' of
                       Inl e \<Rightarrow> Inl e
                     | Inr v \<Rightarrow> py_int v)
                  else
                    (case subscript data ''result'' of Inl e \<Rightarrow> Inl e | Inr v \<Rightarrow> py_len v))
               else Inr 0))"

text \<open>\<open>fetch_holders_count\<close>: \<open>except Exception\<close> returns 0.\<close>

definition fetch_holders_count :: "world \<Rightarrow> string \<Rightarrow> int" where
  "fetch_holders_count w contract_address =
     (case holders_attempt w contract_address of Inl e \<Rightarrow> 0 | Inr n \<Rightarrow> n)"

text \<open>
  \<open>sum(1 for tx in data['result'] if int(tx['timeStamp']) > timestamp_24h_ago)\<close>: the
  first element whose time stamp cannot be read raises.
\<close>

fun count_recent :: "int \<Rightarrow> json list \<Rightarrow> exn + int" where
  "count_recent ago [] = Inr 0"
| "count_recent ago (tx # txs) =
     (case subscript tx ''timeStamp'' of
        Inl e \<Rightarrow> Inl e
      | Inr v \<Rightarrow>
          (case py_int v of
             Inl e \<Rightarrow> Inl e
           | Inr ts \<Rightarrow>
               (case count_recent ago txs of
                  Inl e \<Rightarrow> Inl e
                | Inr n \<Rightarrow> Inr ((if ts > ago then 1 else 0) + n))))"

text \<open>The \<open>try\<close> block of \<open>fetch_transfers_24h\<close>; \<open>now\<close> is the clock reading it starts with.\<close>

definition transfers_attempt :: "world \<Rightarrow> int \<Rightarrow> string \<Rightarrow> exn + int" where
  "transfers_attempt w now contract_address =
     (let timestamp_24h_ago = now - 86400 in
      case transfers_response w contract_address of
        Inl e \<Rightarrow> Inl e
      | Inr data \<Rightarrow>
          (case subscript data ''status'' of
             Inl e \<Rightarrow> Inl e
           | Inr status \<Rightarrow>
               if status = JStr ''1'' then
                 (case subscript data ''result'' of
                    Inl e \<Rightarrow> Inl e
                  | Inr res \<Rightarrow>
                      (case py_iter res of
                         Inl e \<Rightarrow> Inl e
                       | Inr txs \<Rightarrow> count_recent timestamp_24h_ago txs))
               else Inr 0))"

definition fetch_transfers_24h :: "world \<Rightarrow> int \<Rightarrow> string \<Rightarrow> int" where
  "fetch_transfers_24h w now contract_address =
     (case transfers_attempt w now contract_address of Inl e \<Rightarrow> 0 | Inr n \<Rightarrow> n)"

subsection \<open>The loop of \<open>update_blockchain_data\<close>\<close>

text \<open>
  The state of a pass: the store, the number of clock readings made so far, and the calls
  made so far, in order.
\<close>

datatype event =
  HoldersCall string
  | TransfersCall string
  | Sleep
  | MetricsWrite string int int int
  | ErrorLogged string

record pass =
  db :: store
  reads :: nat
  trace :: "event list"

text \<open>
  The \<open>try\<close> block of the loop body for one contract: the holder query, a pause, the
  transfer query (which reads the clock first), a pause, a second clock reading, the
  write. The write raises when the database fails, or when \<open>update_blockchain_metrics\<close>
  itself raises. The result says whether the block ended by an exception; the state
  carries what had happened by then.
\<close>

definition process_contract :: "world \<Rightarrow> string \<Rightarrow> pass \<Rightarrow> (exn + unit) \<times> pass" where
  "process_contract w c p =
     (let holders = fetch_holders_count w c;
          transfers = fetch_transfers_24h w (clock w (reads p)) c;
          current_timestamp = clock w (Suc (reads p));
          calls = [HoldersCall c, Sleep, TransfersCall c, Sleep,
                   MetricsWrite c holders transfers current_timestamp]
      in case write_fault w c of
           Some e \<Rightarrow> (Inl e, p\<lparr>reads := reads p + 2, trace := trace p @ calls\<rparr>)
         | None \<Rightarrow>
             (case update_blockchain_metrics c (Some holders) (Some transfers)
                     (Some current_timestamp) (db p) of
                (outcome, s') \<Rightarrow>
                  (outcome, p\<lparr>db := s', reads := reads p + 2, trace := trace p @ calls\<rparr>)))"

text \<open>\<open>for contract in contracts: try: ... except Exception as e: logger.error(...); continue\<close>.\<close>

fun metrics_loop :: "world \<Rightarrow> string list \<Rightarrow> pass \<Rightarrow> pass" where
  "metrics_loop w [] p = p"
| "metrics_loop w (c # cs) p =
     (case process_contract w c p of
        (Inl e, p') \<Rightarrow> metrics_loop w cs (p'\<lparr>trace := trace p' @ [ErrorLogged c]\<rparr>)
      | (Inr u, p') \<Rightarrow> metrics_loop w cs p')"

definition update_blockchain_data :: "world \<Rightarrow> store \<Rightarrow> pass" where
  "update_blockchain_data w s =
     (let contracts = get_all_contracts (scan_order w) s;
          start = \<lparr>db = s, reads = 0, trace = []\<rparr>
      in if contracts = [] then start else metrics_loop w contracts start)"

section \<open>The listing pass: \<open>scraper.py\<close>\<close>

subsection \<open>The page as the scraper sees it\<close>

text \<open>
  The HTML document is seen through the queries the scraper makes. An \<open>anchor\<close> is an
  \<open>a\<close> tag with its \<open>href\<close> attribute, if it has one, and its text. An \<open>element\<close> records,
  for one candidate tag, the result of every \<open>find\<close> the loop body performs on it
  (\<open>None\<close> where \<open>find\<close> returns \<open>None\<close>):
  \<^item> \<open>name_span\<close>, \<open>name_td\<close>: the text of \<open>span.coin-name\<close> and of \<open>td.name\<close>;
  \<^item> \<open>symbol_span\<close>, \<open>symbol_td\<close>: the text of \<open>span.coin-symbol\<close> and of \<open>td.symbol\<close>;
  \<^item> \<open>bscscan_link\<close>: the first \<open>a\<close> whose \<open>href\<close> contains \<open>bscscan.com\<close>;
  \<^item> \<open>contract_td\<close>: \<open>None\<close> when there is no \<open>td.contract\<close>, otherwise the result of
    \<open>find('a')\<close> on that cell;
  \<^item> \<open>price_span\<close>, \<open>price_td\<close>: the text of \<open>span.coin-price\<close> and of \<open>td.price\<close>;
  \<^item> \<open>has_link\<close>: whether \<open>find('a')\<close> finds anything; \<open>markup\<close>: \<open>str(e)\<close>.

  A \<open>page\<close> holds the results of the three \<open>find_all\<close> calls on the document.
\<close>

record anchor =
  href :: "string option"
  anchor_text :: string

record element =
  name_span :: "string option"
  name_td :: "string option"
  symbol_span :: "string option"
  symbol_td :: "string option"
  bscscan_link :: "anchor option"
  contract_td :: "anchor option option"
  price_span :: "string option"
  price_td :: "string option"
  has_link :: bool
  markup :: string

record page =
  coin_cards :: "element list"
  coin_rows :: "element list"
  table_rows :: "element list"

subsection \<open>Extraction of one record\<close>

text \<open>\<open>x or y\<close> for two results of \<open>find\<close>: a tag is truthy, \<open>None\<close> is not.\<close>

definition or_else :: "'a option \<Rightarrow> 'a option \<Rightarrow> 'a option" where
  "or_else x y = (case x of Some v \<Rightarrow> Some v | None \<Rightarrow> y)"

text \<open>\<open>href.split('/')[-1] if '/' in href else href\<close>.\<close>

definition last_segment :: "string \<Rightarrow> string" where
  "last_segment h =
     (if CHR ''/'' \<in> set h then rev (takeWhile (\<lambda>c. c \<noteq> CHR ''/'') (rev h)) else h)"

text \<open>
  \<open>float(s)\<close> on the strings the scraper passes to it, which consist of digits and dots and
  have at least one digit: such a string is a number when it has at most one dot. The
  result is the real number the literal denotes; the rounding to a float is not modelled.
\<close>

definition float_of_string :: "string \<Rightarrow> exn + real" where
  "float_of_string s =
     (if list_all (\<lambda>c. is_digit c \<or> c = CHR ''.'') s \<and> filter is_digit s \<noteq> [] \<and>
         length (filter (\<lambda>c. c = CHR ''.'') s) \<le> 1
      then Inr (of_int (digits_value (filter is_digit s)) /
                10 ^ (if CHR ''.'' \<in> set s
                      then length (takeWhile (\<lambda>c. c \<noteq> CHR ''.'') (rev s)) else 0))
      else Inl ValueError)"

text \<open>\<open>s.isdigit()\<close>.\<close>

definition isdigit :: "string \<Rightarrow> bool" where
  "isdigit s = (s \<noteq> [] \<and> list_all is_digit s)"

text \<open>
  \<open>price_text = price_element.text.strip().replace('$', '').replace(',', '')\<close>, then
  \<open>float(price_text) if price_text and price_text.replace('.', '').isdigit() else 0.0\<close>.
\<close>

definition parse_price :: "string \<Rightarrow> exn + real" where
  "parse_price t =
     (let price_text = filter (\<lambda>c. c \<noteq> CHR '','') (filter (\<lambda>c. c \<noteq> CHR ''$'') (strip t))
      in if price_text \<noteq> [] \<and> isdigit (filter (\<lambda>c. c \<noteq> CHR ''.'') price_text)
         then float_of_string price_text else Inr 0)"

definition zero_address :: string where
  "zero_address = ''0x0000000000000000000000000000000000000000''"

text \<open>\<open>contract.startswith('0x')\<close>.\<close>

definition startswith_0x :: "string \<Rightarrow> bool" where
  "startswith_0x s = (take 2 s = ''0x'')"

text \<open>
  \<open>element.find('a', href=...) or element.find('td', class_='contract').find('a')\<close>: when
  there is no link to bscscan the second operand is evaluated, and with no \<open>td.contract\<close>
  its inner \<open>find\<close> is called on \<open>None\<close>.
\<close>

definition find_contract_element :: "element \<Rightarrow> exn + anchor option" where
  "find_contract_element e =
     (case bscscan_link e of
        Some a \<Rightarrow> Inr (Some a)
      | None \<Rightarrow> (case contract_td e of None \<Rightarrow> Inl AttributeError | Some a \<Rightarrow> Inr a))"

text \<open>
  The \<open>try\<close> block of the loop over the elements. \<open>Inl\<close>: it raised; \<open>Inr None\<close>: it ended
  without appending; \<open>Inr (Some c)\<close>: it appended \<open>c\<close>.
\<close>

definition extract_coin :: "int \<Rightarrow> element \<Rightarrow> exn + coin option" where
  "extract_coin current_timestamp e =
     (let name_element = or_else (name_span e) (name_td e);
          symbol_element = or_else (symbol_span e) (symbol_td e)
      in case find_contract_element e of
           Inl ex \<Rightarrow> Inl ex
         | Inr contract_element \<Rightarrow>
             (let price_element = or_else (price_span e) (price_td e);
                  name = (case name_element of Some t \<Rightarrow> strip t | None \<Rightarrow> ''Unknown'');
                  symbol = (case symbol_element of Some t \<Rightarrow> strip t | None \<Rightarrow> ''UNK'');
                  contract =
                    (case contract_element of
                       Some a \<Rightarrow>
                         (case href a of Some h \<Rightarrow> last_segment h | None \<Rightarrow> strip (anchor_text a))
                     | None \<Rightarrow> zero_address)
              in case (case price_element of Some t \<Rightarrow> parse_price t | None \<Rightarrow> Inr 0) of
                   Inl ex \<Rightarrow> Inl ex
                 | Inr price_value \<Rightarrow>
                     Inr (if startswith_0x contract
                          then Some \<lparr>name = name, symbol = symbol, contract = contract,
                                     price = Some price_value,
                                     last_updated = Some current_timestamp\<rparr>
                          else None)))"

subsection \<open>\<open>scrape_grafun\<close> and \<open>run_scraper\<close>\<close>

text \<open>The three attempts to find the coin elements.\<close>

definition select_elements :: "page \<Rightarrow> element list" where
  "select_elements p =
     (if coin_cards p \<noteq> [] then coin_cards p
      else if coin_rows p \<noteq> [] then coin_rows p
      else filter (\<lambda>e. has_link e \<and> sublist ''contract'' (map ascii_lower (markup e)))
             (table_rows p))"

text \<open>\<open>for element in coin_elements: try: ... except Exception: continue\<close>.\<close>

fun collect_coins :: "int \<Rightarrow> element list \<Rightarrow> coin list" where
  "collect_coins current_timestamp [] = []"
| "collect_coins current_timestamp (e # es) =
     (case extract_coin current_timestamp e of
        Inl ex \<Rightarrow> collect_coins current_timestamp es
      | Inr None \<Rightarrow> collect_coins current_timestamp es
      | Inr (Some c) \<Rightarrow> c # collect_coins current_timestamp es)"

text \<open>
  \<open>scrape_grafun\<close>. \<open>reply\<close> is the outcome of fetching and parsing the page: an exception
  of \<open>requests.get\<close>, of \<open>raise_for_status\<close> or of the parser, or the page;
  \<open>current_timestamp\<close> is \<open>int(time.time())\<close>. Both \<open>except\<close> clauses return the empty list.
\<close>

definition scrape_grafun :: "exn + page \<Rightarrow> int \<Rightarrow> coin list" where
  "scrape_grafun reply current_timestamp =
     (case reply of
        Inl ex \<Rightarrow> []
      | Inr p \<Rightarrow>
          (let coin_elements = select_elements p
           in if coin_elements = [] then [] else collect_coins current_timestamp coin_elements))"

text \<open>
  \<open>run_scraper\<close>. The result is the store afterwards together with the batches handed to
  \<open>update_coin_data\<close>, the only store operation the function can invoke.
\<close>

definition run_scraper :: "exn + page \<Rightarrow> int \<Rightarrow> store \<Rightarrow> store \<times> coin list list" where
  "run_scraper reply current_timestamp s =
     (let coins = scrape_grafun reply current_timestamp
      in if coins \<noteq> [] then (update_coin_data coins s, [coins]) else (s, []))"

text \<open>Elements and pages used as concrete inputs below.\<close>

definition bare_card :: element where
  "bare_card =
     \<lparr>name_span = Some ''Doge2'', name_td = None, symbol_span = Some ''DOGE2'', symbol_td = None,
      bscscan_link = None, contract_td = None, price_span = Some ''$0.001'', price_td = None,
      has_link = False, markup = ''<div class=coin-card>...</div>''\<rparr>"

definition unlinked_row :: "string \<Rightarrow> element" where
  "unlinked_row n =
     \<lparr>name_span = None, name_td = Some n, symbol_span = None, symbol_td = None,
      bscscan_link = None, contract_td = Some None, price_span = None, price_td = Some ''1.5'',
      has_link = False, markup = ''<tr class=coin-row>...</tr>''\<rparr>"

definition page_of_cards :: "element list \<Rightarrow> page" where
  "page_of_cards es = \<lparr>coin_cards = es, coin_rows = [], table_rows = []\<rparr>"

definition page_of_rows :: "element list \<Rightarrow> page" where
  "page_of_rows es = \<lparr>coin_cards = [], coin_rows = es, table_rows = es\<rparr>"

subsection \<open>What the specification calls a match\<close>

text \<open>
  The specification describes the lookup as a case-insensitive substring match of the
  query against name or symbol. \<open>ci_substring\<close> and \<open>spec_matches\<close> follow those words;
  they are compared with \<open>row_matches\<close> below. \<open>literal_query\<close> singles out the queries
  in which \<open>LIKE\<close> has no special character to interpret: no \<open>%\<close>, no \<open>_\<close> and no NUL.
\<close>

definition ci_substring :: "string \<Rightarrow> string \<Rightarrow> bool" where
  "ci_substring q t = sublist (map ascii_lower q) (map ascii_lower t)"

definition spec_matches :: "string \<Rightarrow> coin_row \<Rightarrow> bool" where
  "spec_matches query r = (ci_substring query (name r) \<or> ci_substring query (symbol r))"

definition literal_query :: "string \<Rightarrow> bool" where
  "literal_query q = (CHR ''%'' \<notin> set q \<and> CHR ''_'' \<notin> set q \<and> CHR 0x00 \<notin> set q)"

text \<open>Rows used as concrete inputs below.\<close>

definition doge_row :: coin_row where
  "doge_row =
     \<lparr>name = ''Doge2'', symbol = ''DOGE2'', contract = ''0xAAA'', price = Some (1 / 1000),
      last_updated = Some 1000, holders = None, transfers_24h = None\<rparr>"

definition king_row :: coin_row where
  "king_row =
     \<lparr>name = ''DogeKing'', symbol = ''DK'', contract = ''0xBBB'', price = Some 2,
      last_updated = Some 1500, holders = Some 7, transfers_24h = Some 3\<rparr>"

definition doge_listing :: coin where
  "doge_listing =
     \<lparr>name = ''Doge2'', symbol = ''DOGE2'', contract = ''0xAAA'', price = Some (1 / 1000),
      last_updated = Some 1000\<rparr>"

definition doge_relisted :: coin where
  "doge_relisted =
     \<lparr>name = ''Doge2'', symbol = ''DOGE2'', contract = ''0xAAA'', price = Some (2 / 1000),
      last_updated = Some 3000\<rparr>"

definition king_listing :: coin where
  "king_listing =
     \<lparr>name = ''DogeKing'', symbol = ''DK'', contract = ''0xBBB'', price = Some 2,
      last_updated = Some 3000\<rparr>"

text \<open>
  Worlds used as concrete inputs below. In \<open>timeout_world\<close> the holder query for
  \<open>0xAAA\<close> times out; in \<open>faulty_world\<close> the contracts are listed in reverse row order and
  the database write for \<open>0xBBB\<close> fails.
\<close>

definition sample_reply :: json where
  "sample_reply =
     JObj [(''status'', JStr ''1''),
           (''result'', JArr [JObj [(''timeStamp'', JStr ''1999950'')],
                              JObj [(''timeStamp'', JStr ''1000'')]])]"

definition timeout_world :: world where
  "timeout_world =
     \<lparr>scan_order = (\<lambda>cs. cs),
      holders_response = (\<lambda>c. if c = ''0xAAA'' then Inl RequestException else Inr sample_reply),
      transfers_response = (\<lambda>c. Inr sample_reply),
      clock = (\<lambda>n. 2000000 + int n),
      write_fault = (\<lambda>c. None)\<rparr>"

definition faulty_world :: world where
  "faulty_world =
     \<lparr>scan_order = rev,
      holders_response = (\<lambda>c. Inr sample_reply),
      transfers_response = (\<lambda>c. Inr sample_reply),
      clock = (\<lambda>n. 2000000 + int n),
      write_fault = (\<lambda>c. if c = ''0xBBB'' then Some OperationalError else None)\<rparr>"

subsection \<open>What one pass does for one contract\<close>

text \<open>
  \<open>contract_events w k c\<close> are the calls the loop body makes for contract \<open>c\<close> when it
  starts at clock reading \<open>k\<close>, and \<open>enriched w k r\<close> is the row \<open>r\<close> after a successful write
  of that iteration. \<open>write_error w k c\<close> is the exception, if any, that the write of that
  iteration raises: the fault of the database, or the \<open>OverflowError\<close> of a value that does
  not fit. \<open>lists_each_once\<close> says that \<open>get_all_contracts\<close> returns every
  stored contract, and none twice. \<open>holders_failed\<close> says that the holder query did not
  succeed: its \<open>try\<close> block raised, or the reply carried a status other than \<open>'1'\<close>.
\<close>

definition write_error :: "world \<Rightarrow> nat \<Rightarrow> string \<Rightarrow> exn option" where
  "write_error w k c =
     (case write_fault w c of
        Some e \<Rightarrow> Some e
      | None \<Rightarrow>
          if fits_int64 (fetch_holders_count w c) \<and>
             fits_int64 (fetch_transfers_24h w (clock w k) c) \<and> fits_int64 (clock w (Suc k))
          then None else Some OverflowError)"

definition contract_events :: "world \<Rightarrow> nat \<Rightarrow> string \<Rightarrow> event list" where
  "contract_events w k c =
     [HoldersCall c, Sleep, TransfersCall c, Sleep,
      MetricsWrite c (fetch_holders_count w c) (fetch_transfers_24h w (clock w k) c)
        (clock w (Suc k))] @
     (case write_error w k c of Some e \<Rightarrow> [ErrorLogged c] | None \<Rightarrow> [])"

definition enriched :: "world \<Rightarrow> nat \<Rightarrow> coin_row \<Rightarrow> coin_row" where
  "enriched w k r =
     r\<lparr>holders := Some (fetch_holders_count w (contract r)),
       transfers_24h := Some (fetch_transfers_24h w (clock w k) (contract r)),
       last_updated := Some (clock w (Suc k))\<rparr>"

definition lists_each_once :: "(string list \<Rightarrow> string list) \<Rightarrow> store \<Rightarrow> bool" where
  "lists_each_once order s =
     (distinct (get_all_contracts order s) \<and>
      set (get_all_contracts order s) = set (stored_contracts s))"

definition reports_failure :: "json \<Rightarrow> bool" where
  "reports_failure data =
     (case subscript data ''status'' of Inl e \<Rightarrow> False | Inr status \<Rightarrow> status \<noteq> JStr ''1'')"

definition holders_failed :: "world \<Rightarrow> string \<Rightarrow> bool" where
  "holders_failed w c =
     (isl (holders_attempt w c) \<or>
      (case holders_response w c of Inl e \<Rightarrow> False | Inr data \<Rightarrow> reports_failure data))"

definition step_result :: "world \<Rightarrow> string \<Rightarrow> pass \<Rightarrow> pass" where
  "step_result w c p =
     p\<lparr>db := (case write_error w (reads p) c of
               Some e \<Rightarrow> db p
             | None \<Rightarrow>
                 snd (update_blockchain_metrics c (Some (fetch_holders_count w c))
                        (Some (fetch_transfers_24h w (clock w (reads p)) c))
                        (Some (clock w (Suc (reads p)))) (db p))),
       reads := reads p + 2,
       trace := trace p @ contract_events w (reads p) c\<rparr>"

subsection \<open>The effect of a batch on one row\<close>

text \<open>
  Two functions used to describe the result of \<open>update_coin_data\<close>. \<open>listing_effect cs r\<close>
  is what the statements for the batch \<open>cs\<close>, in order, do to a row \<open>r\<close> that is already
  stored. \<open>fresh_rows cs seen\<close> are the rows the batch appends when \<open>seen\<close> are the
  contracts stored so far: one for the first record of every new contract, then subject
  to the rest of the batch.
\<close>

fun listing_effect :: "coin list \<Rightarrow> coin_row \<Rightarrow> coin_row" where
  "listing_effect [] r = r"
| "listing_effect (c # cs) r =
     listing_effect cs (if contract r = contract c then excluded_into c r else r)"

fun fresh_rows :: "coin list \<Rightarrow> string set \<Rightarrow> coin_row list" where
  "fresh_rows [] seen = []"
| "fresh_rows (c # cs) seen =
     (if contract c \<in> seen then fresh_rows cs seen
      else listing_effect cs (inserted_row c) # fresh_rows cs (insert (contract c) seen))"

section \<open>Properties of the store\<close>

subsection \<open>Auxiliary facts\<close>

lemma stored_contracts_metrics:
  "stored_contracts (snd (update_blockchain_metrics c h t ts s)) = stored_contracts s"
  by (simp add: stored_contracts_def update_blockchain_metrics_def comp_def if_distrib cong: if_cong)

lemma upsert_coin_nth:
  "i < length s \<Longrightarrow>
   upsert_coin c s ! i = (if contract (s ! i) = contract c then excluded_into c (s ! i) else s ! i)"
proof (cases "contract c \<in> set (stored_contracts s)")
  case True
  assume "i < length s"
  with True show ?thesis by (simp add: upsert_coin_def)
next
  case False
  assume i: "i < length s"
  have "contract (s ! i) \<noteq> contract c"
  proof
    assume "contract (s ! i) = contract c"
    then have "contract c \<in> contract ` set s" using i by (metis imageI nth_mem)
    with False show False by (simp add: stored_contracts_def)
  qed
  with False i show ?thesis by (simp add: upsert_coin_def nth_append)
qed

lemma upsert_coin_length: "length s \<le> length (upsert_coin c s)"
  by (simp add: upsert_coin_def)

lemma stored_contracts_upsert:
  "stored_contracts (upsert_coin c s) =
     (if contract c \<in> set (stored_contracts s) then stored_contracts s
      else stored_contracts s @ [contract c])"
  by (auto simp: upsert_coin_def stored_contracts_def excluded_into_def inserted_row_def)

lemma contract_excluded_into [simp]: "contract (excluded_into c r) = contract r"
  by (simp add: excluded_into_def)

lemma holders_excluded_into [simp]: "holders (excluded_into c r) = holders r"
  by (simp add: excluded_into_def)

lemma transfers_excluded_into [simp]: "transfers_24h (excluded_into c r) = transfers_24h r"
  by (simp add: excluded_into_def)

lemma excluded_into_twice [simp]: "excluded_into c (excluded_into d r) = excluded_into c r"
  by (simp add: excluded_into_def)

lemma excluded_into_inserted [simp]: "excluded_into c (inserted_row c) = inserted_row c"
  by (simp add: excluded_into_def inserted_row_def)

lemma contract_inserted_row [simp]: "contract (inserted_row c) = contract c"
  by (simp add: inserted_row_def)

lemma listing_effect_last:
  "listing_effect cs r =
     (case filter (\<lambda>c. contract c = contract r) cs of
        [] \<Rightarrow> r
      | m # ms \<Rightarrow> excluded_into (last (m # ms)) r)"
proof (induction cs arbitrary: r)
  case Nil
  show ?case by simp
next
  case (Cons c cs)
  show ?case
    by (simp add: Cons.IH split: list.split)
qed

lemma contract_listing_effect [simp]: "contract (listing_effect cs r) = contract r"
  by (induction cs arbitrary: r) simp_all

lemma holders_listing_effect [simp]: "holders (listing_effect cs r) = holders r"
  by (induction cs arbitrary: r) simp_all

lemma transfers_listing_effect [simp]: "transfers_24h (listing_effect cs r) = transfers_24h r"
  by (induction cs arbitrary: r) simp_all

lemma listing_effect_absent:
  "contract r \<notin> contract ` set cs \<Longrightarrow> listing_effect cs r = r"
  by (induction cs arbitrary: r) auto

lemma listing_effect_append:
  "listing_effect (xs @ ys) r = listing_effect ys (listing_effect xs r)"
  by (induction xs arbitrary: r) simp_all

lemma excluded_into_cong:
  "contract r1 = contract r2 \<Longrightarrow> holders r1 = holders r2 \<Longrightarrow>
   transfers_24h r1 = transfers_24h r2 \<Longrightarrow> excluded_into c r1 = excluded_into c r2"
  by (cases r1, cases r2) (simp add: excluded_into_def)

lemma listing_effect_idem: "listing_effect cs (listing_effect cs r) = listing_effect cs r"
  by (simp add: listing_effect_last split: list.split)

lemma update_coin_data_nth:
  "i < length s \<Longrightarrow>
   i < length (update_coin_data cs s) \<and> update_coin_data cs s ! i = listing_effect cs (s ! i)"
proof (induction cs arbitrary: s)
  case Nil
  then show ?case by simp
next
  case (Cons c cs)
  from Cons.prems have i: "i < length (upsert_coin c s)"
    using upsert_coin_length [of s c] by simp
  from Cons.IH [OF i] Cons.prems show ?case
    by (simp add: upsert_coin_nth)
qed

lemma update_coin_data_char:
  "update_coin_data cs s =
     map (listing_effect cs) s @ fresh_rows cs (set (stored_contracts s))"
proof (induction cs arbitrary: s)
  case Nil
  show ?case by simp
next
  case (Cons c cs)
  show ?case
  proof (cases "contract c \<in> set (stored_contracts s)")
    case True
    then show ?thesis
      by (simp add: Cons.IH stored_contracts_upsert) (simp add: upsert_coin_def)
  next
    case False
    then have "\<forall>r\<in>set s. contract r \<noteq> contract c"
      by (metis imageI list.set_map stored_contracts_def)
    with False show ?thesis
      by (simp add: Cons.IH stored_contracts_upsert) (simp add: upsert_coin_def)
  qed
qed

lemma fresh_rows_seen:
  "contract ` set cs \<subseteq> seen \<Longrightarrow> fresh_rows cs seen = []"
  by (induction cs arbitrary: seen) auto

lemma contracts_fresh_rows:
  "contract ` set (fresh_rows cs seen) \<union> seen = contract ` set cs \<union> seen"
proof (induction cs arbitrary: seen)
  case Nil
  show ?case by simp
next
  case (Cons c cs)
  show ?case
  proof (cases "contract c \<in> seen")
    case True
    with Cons.IH [of seen] show ?thesis by auto
  next
    case False
    have "contract ` set (fresh_rows (c # cs) seen) \<union> seen =
          contract ` set (fresh_rows cs (insert (contract c) seen)) \<union> insert (contract c) seen"
      using False by simp
    also have "\<dots> = contract ` set cs \<union> insert (contract c) seen"
      by (rule Cons.IH)
    finally show ?thesis by simp
  qed
qed

lemma fresh_rows_stable:
  "r \<in> set (fresh_rows cs seen) \<Longrightarrow> listing_effect (pre @ cs) r = r"
proof (induction cs arbitrary: pre seen)
  case Nil
  then show ?case by simp
next
  case (Cons c cs)
  show ?case
  proof (cases "r \<in> set (fresh_rows cs seen) \<or> r \<in> set (fresh_rows cs (insert (contract c) seen))")
    case True
    then have "listing_effect ((pre @ [c]) @ cs) r = r"
      using Cons.IH by blast
    then show ?thesis by simp
  next
    case False
    with Cons.prems have r: "r = listing_effect cs (inserted_row c)"
      by (auto split: if_splits)
    let ?r1 = "listing_effect pre r"
    have "excluded_into c ?r1 = excluded_into c (inserted_row c)"
      by (rule excluded_into_cong) (simp_all add: r inserted_row_def)
    then have "listing_effect (pre @ c # cs) r = listing_effect cs (inserted_row c)"
      by (simp add: listing_effect_append r)
    then show ?thesis by (simp add: r)
  qed
qed

lemma update_coin_data_contracts:
  "set (stored_contracts (update_coin_data cs s)) = set (stored_contracts s) \<union> contract ` set cs"
  using contracts_fresh_rows [of cs "set (stored_contracts s)"]
  by (simp add: update_coin_data_char stored_contracts_def image_Un image_image Un_commute)

lemma update_coin_data_idem:
  "update_coin_data cs (update_coin_data cs s) = update_coin_data cs s"
proof -
  let ?s' = "update_coin_data cs s"
  have "fresh_rows cs (set (stored_contracts ?s')) = []"
    by (rule fresh_rows_seen) (simp add: update_coin_data_contracts)
  moreover have "map (listing_effect cs) ?s' = ?s'"
  proof (rule map_idI)
    fix r assume "r \<in> set ?s'"
    then consider "r \<in> listing_effect cs ` set s"
      | "r \<in> set (fresh_rows cs (set (stored_contracts s)))"
      by (auto simp: update_coin_data_char)
    then show "listing_effect cs r = r"
    proof cases
      case 1 then show ?thesis by (auto simp: listing_effect_idem)
    next
      case 2 then show ?thesis using fresh_rows_stable [of r cs _ "[]"] by simp
    qed
  qed
  ultimately show ?thesis
    using update_coin_data_char [of cs ?s'] by simp
qed

lemma update_coin_data_unique:
  "unique_contracts s \<Longrightarrow> unique_contracts (update_coin_data cs s)"
proof (induction cs arbitrary: s)
  case Nil then show ?case by simp
next
  case (Cons c cs)
  have "unique_contracts (upsert_coin c s)"
    using Cons.prems by (simp add: unique_contracts_def stored_contracts_upsert)
  then show ?case using Cons.IH by simp
qed

lemma update_coin_data_present:
  "contract ` set cs \<subseteq> set (stored_contracts s) \<Longrightarrow>
   stored_contracts (update_coin_data cs s) = stored_contracts s"
  by (induction cs arbitrary: s) (simp_all add: stored_contracts_upsert)

lemma like_percent:
  "like (CHR ''%'' # ps) t \<longleftrightarrow> (\<exists>k\<le>length t. like ps (drop k t))"
proof (induction t)
  case Nil
  show ?case by simp
next
  case (Cons c cs)
  have "(\<exists>k\<le>length (c # cs). like ps (drop k (c # cs))) \<longleftrightarrow>
        like ps (c # cs) \<or> (\<exists>k\<le>length cs. like ps (drop k cs))"
  proof
    assume "\<exists>k\<le>length (c # cs). like ps (drop k (c # cs))"
    then obtain k where k: "k \<le> length (c # cs)" "like ps (drop k (c # cs))" by blast
    show "like ps (c # cs) \<or> (\<exists>k\<le>length cs. like ps (drop k cs))"
    proof (cases k)
      case 0 with k show ?thesis by simp
    next
      case (Suc j) with k show ?thesis by auto
    qed
  next
    assume "like ps (c # cs) \<or> (\<exists>k\<le>length cs. like ps (drop k cs))"
    then show "\<exists>k\<le>length (c # cs). like ps (drop k (c # cs))"
    proof
      assume "like ps (c # cs)"
      then have "like ps (drop 0 (c # cs))" by simp
      then show ?thesis by blast
    next
      assume "\<exists>k\<le>length cs. like ps (drop k cs)"
      then obtain k where "k \<le> length cs" "like ps (drop k cs)" by blast
      then have "Suc k \<le> length (c # cs)" "like ps (drop (Suc k) (c # cs))" by simp_all
      then show ?thesis by blast
    qed
  qed
  with Cons show ?case by simp
qed

lemma like_percent_only: "like [CHR ''%''] t"
proof -
  have "like [] (drop (length t) t)" by simp
  then show ?thesis unfolding like_percent by blast
qed

lemma like_percent_skip: "like ps t \<Longrightarrow> like (CHR ''%'' # ps) t"
proof -
  assume "like ps t"
  then have "like ps (drop 0 t)" by simp
  then show ?thesis unfolding like_percent by blast
qed

lemma like_literal:
  "literal_query q \<Longrightarrow>
   like (q @ ps) t \<longleftrightarrow>
     (length q \<le> length t \<and> map ascii_lower (take (length q) t) = map ascii_lower q \<and>
      like ps (drop (length q) t))"
proof (induction q arbitrary: t)
  case Nil
  show ?case by simp
next
  case (Cons x xs)
  then have x: "x \<noteq> CHR ''%''" "x \<noteq> CHR ''_''" and xs: "literal_query xs"
    by (auto simp: literal_query_def)
  show ?case
  proof (cases t)
    case Nil
    with x show ?thesis by simp
  next
    case (Cons c cs)
    with x Cons.IH [OF xs, of cs] show ?thesis by auto
  qed
qed

lemma like_search_pattern:
  assumes "literal_query q"
  shows "like (search_pattern q) t \<longleftrightarrow> ci_substring q t"
proof -
  have "like (search_pattern q) t \<longleftrightarrow>
        (\<exists>k\<le>length t. length q \<le> length (drop k t) \<and>
            map ascii_lower (take (length q) (drop k t)) = map ascii_lower q)"
  proof -
    have "like (search_pattern q) t \<longleftrightarrow> (\<exists>k\<le>length t. like (q @ [CHR ''%'']) (drop k t))"
      by (simp add: search_pattern_def like_percent)
    then show ?thesis
      by (simp add: like_literal [OF assms] like_percent_only)
  qed
  also have "\<dots> \<longleftrightarrow> sublist (map ascii_lower q) (map ascii_lower t)"
  proof
    assume "\<exists>k\<le>length t. length q \<le> length (drop k t) \<and>
            map ascii_lower (take (length q) (drop k t)) = map ascii_lower q"
    then obtain k where k: "k \<le> length t" "length q \<le> length (drop k t)"
      "map ascii_lower (take (length q) (drop k t)) = map ascii_lower q" by blast
    have "t = take k t @ take (length q) (drop k t) @ drop (length q) (drop k t)"
      by (metis append_take_drop_id)
    then have "map ascii_lower t = map ascii_lower (take k t) @ map ascii_lower q @
        map ascii_lower (drop (length q) (drop k t))"
      using k(3) by (metis map_append)
    then show "sublist (map ascii_lower q) (map ascii_lower t)"
      unfolding sublist_def by blast
  next
    assume "sublist (map ascii_lower q) (map ascii_lower t)"
    then obtain pre post where eq: "map ascii_lower t = pre @ map ascii_lower q @ post"
      unfolding sublist_def by blast
    let ?k = "length pre"
    from eq have len: "length t = length pre + length q + length post"
      by (metis length_append length_map add.assoc)
    have "drop ?k (map ascii_lower t) = map ascii_lower q @ post" using eq by simp
    then have "take (length q) (drop ?k (map ascii_lower t)) = map ascii_lower q" by simp
    then have "map ascii_lower (take (length q) (drop ?k t)) = map ascii_lower q"
      by (simp add: take_map drop_map)
    moreover have "?k \<le> length t" "length q \<le> length (drop ?k t)" using len by simp_all
    ultimately show "\<exists>k\<le>length t. length q \<le> length (drop k t) \<and>
            map ascii_lower (take (length q) (drop k t)) = map ascii_lower q" by blast
  qed
  finally show ?thesis by (simp add: ci_substring_def)
qed

lemma c_string_search_pattern:
  "literal_query q \<Longrightarrow> c_string (search_pattern q) = search_pattern q"
  by (auto simp: c_string_def search_pattern_def literal_query_def takeWhile_eq_all_conv)

lemma sql_like_search_pattern:
  "literal_query q \<Longrightarrow> sql_like (search_pattern q) t \<longleftrightarrow> ci_substring q (c_string t)"
  by (simp add: sql_like_def c_string_search_pattern like_search_pattern)

lemma sql_like_empty_query: "sql_like (search_pattern []) t"
proof -
  have "c_string (search_pattern []) = [CHR ''%'', CHR ''%'']"
    by (simp add: c_string_def search_pattern_def)
  then show ?thesis
    by (simp add: sql_like_def like_percent_only like_percent_skip)
qed

lemma find_first:
  "(case List.find P xs of
      None \<Rightarrow> \<forall>x\<in>set xs. \<not> P x
    | Some x \<Rightarrow> \<exists>i<length xs. xs ! i = x \<and> P x \<and> (\<forall>j<i. \<not> P (xs ! j)))"
  by (auto simp: find_None_iff find_Some_iff split: option.split)

subsection \<open>Listing writes\<close>

text \<open>
  C1, as the code has it. \<open>update_coin_data\<close> keeps every stored row at its place and
  leaves its \<open>contract\<close>, \<open>holders\<close> and \<open>transfers_24h\<close> untouched. A row whose contract
  does not occur in the batch is unchanged in all its fields, \<open>last_updated\<close> included. A
  row whose contract occurs in the batch gets the \<open>last_updated\<close> of the last batch record
  for that contract: the \<open>SET\<close> clause lists \<open>last_updated = excluded.last_updated\<close>.
\<close>

theorem update_coin_data_frame:
  "length s \<le> length (update_coin_data cs s) \<and>
   (\<forall>i<length s.
      contract (update_coin_data cs s ! i) = contract (s ! i) \<and>
      holders (update_coin_data cs s ! i) = holders (s ! i) \<and>
      transfers_24h (update_coin_data cs s ! i) = transfers_24h (s ! i) \<and>
      (contract (s ! i) \<notin> contract ` set cs \<longrightarrow> update_coin_data cs s ! i = s ! i) \<and>
      (contract (s ! i) \<in> contract ` set cs \<longrightarrow>
         last_updated (update_coin_data cs s ! i) =
           last_updated (last (filter (\<lambda>c. contract c = contract (s ! i)) cs))))"
proof -
  have len: "length s \<le> length (update_coin_data cs s)"
    by (simp add: update_coin_data_char)
  have row: "update_coin_data cs s ! i = listing_effect cs (s ! i)" if "i < length s" for i
    using update_coin_data_nth [OF that] by simp
  have upd: "last_updated (listing_effect cs r) =
               last_updated (last (filter (\<lambda>c. contract c = contract r) cs))"
    if "contract r \<in> contract ` set cs" for r
  proof -
    from that have "filter (\<lambda>c. contract c = contract r) cs \<noteq> []"
      by (auto simp: filter_empty_conv)
    then show ?thesis
      by (auto simp: listing_effect_last excluded_into_def split: list.split)
  qed
  show ?thesis
    using len by (simp add: row listing_effect_absent upd)
qed

theorem update_coin_data_frame_witness:
  "(0::nat) < length [doge_row\<lparr>holders := Some 500, transfers_24h := Some 42, last_updated := Some 2000\<rparr>, king_row] \<and>
   holders (update_coin_data [doge_relisted]
      [doge_row\<lparr>holders := Some 500, transfers_24h := Some 42, last_updated := Some 2000\<rparr>, king_row] ! 0) = Some 500 \<and>
   transfers_24h (update_coin_data [doge_relisted]
      [doge_row\<lparr>holders := Some 500, transfers_24h := Some 42, last_updated := Some 2000\<rparr>, king_row] ! 0) = Some 42 \<and>
   last_updated (update_coin_data [doge_relisted]
      [doge_row\<lparr>holders := Some 500, transfers_24h := Some 42, last_updated := Some 2000\<rparr>, king_row] ! 0) = Some 3000 \<and>
   update_coin_data [doge_relisted]
      [doge_row\<lparr>holders := Some 500, transfers_24h := Some 42, last_updated := Some 2000\<rparr>, king_row] ! 1 = king_row"
  using update_coin_data_frame [where cs = "[doge_relisted]" and s =
      "[doge_row\<lparr>holders := Some 500, transfers_24h := Some 42, last_updated := Some 2000\<rparr>, king_row]"]
  by (simp add: doge_row_def king_row_def doge_relisted_def upsert_coin_def
      stored_contracts_def excluded_into_def)

text \<open>
  C1 as stated fails for \<open>last_updated\<close>. In the sequence of the specification, a listing
  upsert, then a metrics update stamped 2000, then a second listing upsert of the same
  contract stamped 3000, the row's \<open>last_updated\<close> is 2000 before the second upsert and
  3000 after it.
\<close>

theorem update_coin_data_last_updated_counterexample:
  "last_updated (snd (update_blockchain_metrics ''0xAAA'' (Some 500) (Some 42) (Some 2000)
      (update_coin_data [doge_listing] [])) ! 0) = Some 2000 \<and>
   last_updated (update_coin_data [doge_relisted]
      (snd (update_blockchain_metrics ''0xAAA'' (Some 500) (Some 42) (Some 2000)
        (update_coin_data [doge_listing] []))) ! 0) = Some 3000"
  by (simp add: doge_listing_def doge_relisted_def upsert_coin_def update_blockchain_metrics_def
      bindable_def fits_int64_def stored_contracts_def excluded_into_def inserted_row_def)

text \<open>
  C2. Upsert idempotence and key uniqueness: applying \<open>update_coin_data\<close> a second time
  with the same batch gives the very same list of rows; unique contracts stay unique; and
  a batch whose contracts are all stored already leaves the list of contracts, and with
  it the number of rows, as it was.
\<close>

theorem update_coin_data_idempotent:
  "update_coin_data cs (update_coin_data cs s) = update_coin_data cs s \<and>
   (unique_contracts s \<longrightarrow> unique_contracts (update_coin_data cs s)) \<and>
   (contract ` set cs \<subseteq> set (stored_contracts s) \<longrightarrow>
      stored_contracts (update_coin_data cs s) = stored_contracts s)"
  by (simp add: update_coin_data_idem update_coin_data_unique update_coin_data_present)

theorem update_coin_data_idempotent_witness:
  "unique_contracts [doge_row] \<and>
   contract ` set [doge_relisted, king_listing] \<subseteq>
     set (stored_contracts (update_coin_data [doge_relisted, king_listing] [doge_row])) \<and>
   update_coin_data [doge_relisted, king_listing]
     (update_coin_data [doge_relisted, king_listing] [doge_row]) =
     update_coin_data [doge_relisted, king_listing] [doge_row] \<and>
   unique_contracts (update_coin_data [doge_relisted, king_listing] [doge_row]) \<and>
   stored_contracts (update_coin_data [doge_relisted, king_listing]
     (update_coin_data [doge_relisted, king_listing] [doge_row])) = [''0xAAA'', ''0xBBB'']"
  using update_coin_data_idempotent [where cs = "[doge_relisted, king_listing]" and s = "[doge_row]"]
    update_coin_data_idempotent [where cs = "[doge_relisted, king_listing]" and
      s = "update_coin_data [doge_relisted, king_listing] [doge_row]"]
  by (simp add: doge_row_def doge_relisted_def king_listing_def upsert_coin_def
      stored_contracts_def excluded_into_def inserted_row_def unique_contracts_def)


subsection \<open>Metrics writes\<close>

text \<open>
  C3, as the code has it. \<open>update_blockchain_metrics\<close> on a contract that no row of the
  store carries leaves the store exactly as it was, and it completes without raising when
  each of the three values is \<open>None\<close> or an integer of the signed 64-bit range. With a
  value outside that range it raises \<open>OverflowError\<close>.
\<close>

theorem update_blockchain_metrics_missing:
  "c \<notin> set (stored_contracts s) \<Longrightarrow>
   update_blockchain_metrics c h t ts s =
     (if bindable h \<and> bindable t \<and> bindable ts then (Inr (), s) else (Inl OverflowError, s))"
proof -
  assume "c \<notin> set (stored_contracts s)"
  then have "\<forall>r\<in>set s. contract r \<noteq> c"
    by (auto simp: stored_contracts_def)
  then have "map (\<lambda>r. if contract r = c
                       then r\<lparr>holders := h, transfers_24h := t, last_updated := ts\<rparr>
                       else r) s = s"
    by (induction s) simp_all
  then show ?thesis by (simp add: update_blockchain_metrics_def)
qed

theorem update_blockchain_metrics_missing_witness:
  "''0xCCC'' \<notin> set (stored_contracts [doge_row, king_row]) \<and>
   bindable (Some 500) \<and> bindable (Some 42) \<and> bindable (Some 2000) \<and>
   update_blockchain_metrics ''0xCCC'' (Some 500) (Some 42) (Some 2000) [doge_row, king_row] =
     (Inr (), [doge_row, king_row])"
proof -
  have h: "''0xCCC'' \<notin> set (stored_contracts [doge_row, king_row])"
    by (simp add: stored_contracts_def doge_row_def king_row_def)
  have b: "bindable (Some 500)" "bindable (Some 42)" "bindable (Some 2000)"
    by (simp_all add: bindable_def fits_int64_def)
  show ?thesis
    using h b update_blockchain_metrics_missing [OF h, of "Some 500" "Some 42" "Some 2000"]
    by simp
qed

text \<open>
  C3 as stated fails: with 9223372036854775808, the first integer beyond the signed
  64-bit range, as \<open>holders\<close>, the call for the absent contract \<open>0xCCC\<close> raises
  \<open>OverflowError\<close>.
\<close>

theorem update_blockchain_metrics_overflow_counterexample:
  "''0xCCC'' \<notin> set (stored_contracts [doge_row, king_row]) \<and>
   update_blockchain_metrics ''0xCCC'' (Some 9223372036854775808) (Some 42) (Some 2000)
     [doge_row, king_row] = (Inl OverflowError, [doge_row, king_row])"
  by (simp add: update_blockchain_metrics_def bindable_def fits_int64_def stored_contracts_def
      doge_row_def king_row_def)

text \<open>
  C4. Metrics-phase frame condition: whatever its arguments and however it ends,
  \<open>update_blockchain_metrics\<close> keeps the number and order of the rows; in every row the
  contract, name, symbol and price are what they were, and a row whose contract is not
  the one named in the call is unchanged in all its fields.
\<close>

theorem update_blockchain_metrics_frame:
  "length (snd (update_blockchain_metrics c h t ts s)) = length s \<and>
   (\<forall>i<length s.
      contract (snd (update_blockchain_metrics c h t ts s) ! i) = contract (s ! i) \<and>
      name (snd (update_blockchain_metrics c h t ts s) ! i) = name (s ! i) \<and>
      symbol (snd (update_blockchain_metrics c h t ts s) ! i) = symbol (s ! i) \<and>
      price (snd (update_blockchain_metrics c h t ts s) ! i) = price (s ! i) \<and>
      (contract (s ! i) \<noteq> c \<longrightarrow> snd (update_blockchain_metrics c h t ts s) ! i = s ! i))"
  by (simp add: update_blockchain_metrics_def)

theorem update_blockchain_metrics_frame_witness:
  "(1::nat) < length [doge_row, king_row] \<and> contract ([doge_row, king_row] ! 1) \<noteq> ''0xAAA'' \<and>
   name (snd (update_blockchain_metrics ''0xAAA'' (Some 500) (Some 42) (Some 2000)
          [doge_row, king_row]) ! 0) = ''Doge2'' \<and>
   price (snd (update_blockchain_metrics ''0xAAA'' (Some 500) (Some 42) (Some 2000)
          [doge_row, king_row]) ! 0) = Some (1 / 1000) \<and>
   holders (snd (update_blockchain_metrics ''0xAAA'' (Some 500) (Some 42) (Some 2000)
          [doge_row, king_row]) ! 0) = Some 500 \<and>
   snd (update_blockchain_metrics ''0xAAA'' (Some 500) (Some 42) (Some 2000)
          [doge_row, king_row]) ! 1 = king_row"
  using update_blockchain_metrics_frame
          [of "''0xAAA''" "Some 500" "Some 42" "Some 2000" "[doge_row, king_row]"]
  by (simp add: update_blockchain_metrics_def bindable_def fits_int64_def doge_row_def
      king_row_def)

subsection \<open>Lookup\<close>

text \<open>
  C9. The empty query matches everything: the pattern is \<open>%%\<close>, so \<open>search_coin\<close> with
  the empty query returns, without raising, the first row of a non-empty store, and
  \<open>None\<close> exactly when the store is empty.
\<close>

theorem search_coin_empty_query:
  "search_coin [] s = Inr (case s of [] \<Rightarrow> None | r # rs \<Rightarrow> Some r)"
proof -
  have m: "row_matches [] r" for r
    by (simp add: row_matches_def sql_like_empty_query)
  have l: "\<not> pattern_limit < int (length (search_pattern []))"
    by (simp add: search_pattern_def pattern_limit_def)
  show ?thesis
    by (cases s) (simp_all add: search_coin_def m l)
qed

text \<open>
  C8, as the code has it. For a query of at most 49998 characters, or on an empty store,
  \<open>search_coin\<close> does not raise: it returns the first row, in store order, whose name or
  symbol satisfies \<open>LIKE '%query%'\<close>, and \<open>None\<close> when no row does. For a longer query on a
  store that is not empty it raises \<open>OperationalError\<close>. For a query without \<open>%\<close>, \<open>_\<close> and
  NUL the condition on a row is the case-insensitive substring match of the
  specification, against name and symbol read up to their first NUL.
\<close>

theorem search_coin_first_match:
  "(s \<noteq> [] \<and> 49998 < int (length query) \<longrightarrow> search_coin query s = Inl OperationalError) \<and>
   (s = [] \<or> int (length query) \<le> 49998 \<longrightarrow>
      (\<exists>found. search_coin query s = Inr found \<and>
         (case found of
            None \<Rightarrow> \<forall>r\<in>set s. \<not> row_matches query r
          | Some r \<Rightarrow> \<exists>i<length s. s ! i = r \<and> row_matches query r \<and>
                       (\<forall>j<i. \<not> row_matches query (s ! j))))) \<and>
   (literal_query query \<longrightarrow>
      (\<forall>r. row_matches query r =
         (ci_substring query (c_string (name r)) \<or> ci_substring query (c_string (symbol r)))))"
proof -
  have len: "int (length (search_pattern query)) = int (length query) + 2"
    by (simp add: search_pattern_def)
  have "search_coin query s = Inl OperationalError" if "s \<noteq> []" "49998 < int (length query)"
    using that len by (simp add: search_coin_def pattern_limit_def)
  moreover have "\<exists>found. search_coin query s = Inr found \<and>
         (case found of
            None \<Rightarrow> \<forall>r\<in>set s. \<not> row_matches query r
          | Some r \<Rightarrow> \<exists>i<length s. s ! i = r \<and> row_matches query r \<and>
                       (\<forall>j<i. \<not> row_matches query (s ! j)))"
    if "s = [] \<or> int (length query) \<le> 49998"
  proof -
    from that len have "search_coin query s = Inr (List.find (row_matches query) s)"
      by (auto simp: search_coin_def pattern_limit_def)
    then show ?thesis
      using find_first [where P = "row_matches query" and xs = s] by simp
  qed
  moreover have "row_matches query r =
         (ci_substring query (c_string (name r)) \<or> ci_substring query (c_string (symbol r)))"
    if "literal_query query" for r
    using that by (simp add: row_matches_def sql_like_search_pattern)
  ultimately show ?thesis by blast
qed

theorem search_coin_first_match_witness:
  "literal_query ''doge'' \<and> int (length ''doge'') \<le> 49998 \<and>
   spec_matches ''doge'' doge_row \<and> spec_matches ''doge'' king_row \<and>
   search_coin ''doge'' [doge_row, king_row] = Inr (Some doge_row) \<and>
   search_coin ''cat'' [doge_row, king_row] = Inr None"
proof -
  have a: "literal_query ''doge''" by (simp add: literal_query_def)
  have l: "int (length ''doge'') \<le> 49998" by simp
  have b: "spec_matches ''doge'' doge_row" "spec_matches ''doge'' king_row" by code_simp+
  have c: "search_coin ''doge'' [doge_row, king_row] = Inr (Some doge_row)" by code_simp
  have d: "search_coin ''cat'' [doge_row, king_row] = Inr None" by code_simp
  show ?thesis
    using a l b c d
      search_coin_first_match [where query = "''doge''" and s = "[doge_row, king_row]"]
    by simp
qed

text \<open>
  C8 as stated fails for a query with a wildcard: \<open>d_ge\<close> is not a substring of \<open>Doge2\<close>
  or \<open>DOGE2\<close> in any letter case, so under the stated semantics no row matches and the
  result would be none, but \<open>_\<close> stands for any one character and the row is returned.
\<close>

theorem search_coin_wildcard_counterexample:
  "\<not> spec_matches ''d_ge'' doge_row \<and> search_coin ''d_ge'' [doge_row] = Inr (Some doge_row)"
  by code_simp

section \<open>Properties of the metrics pass\<close>

subsection \<open>Auxiliary facts\<close>

lemma metrics_loop_step:
  "metrics_loop w (c # cs) p = metrics_loop w cs (step_result w c p)"
  by (cases "write_fault w c")
    (simp_all add: process_contract_def step_result_def contract_events_def write_error_def
      update_blockchain_metrics_def bindable_def Let_def)

lemma step_result_simps [simp]:
  "reads (step_result w c p) = reads p + 2"
  "trace (step_result w c p) = trace p @ contract_events w (reads p) c"
  "length (db (step_result w c p)) = length (db p)"
  by (simp_all add: step_result_def update_blockchain_metrics_def split: option.split)

lemma step_result_row:
  "i < length (db p) \<Longrightarrow>
   db (step_result w c p) ! i =
     (if contract (db p ! i) = c \<and> write_error w (reads p) c = None
      then enriched w (reads p) (db p ! i) else db p ! i)"
  by (auto simp: step_result_def update_blockchain_metrics_def enriched_def write_error_def
      bindable_def split: option.splits if_splits)

lemma metrics_loop_reads: "reads (metrics_loop w cs p) = reads p + 2 * length cs"
  by (induction cs arbitrary: p) (simp_all add: metrics_loop_step del: metrics_loop.simps(2))

lemma metrics_loop_length: "length (db (metrics_loop w cs p)) = length (db p)"
  by (induction cs arbitrary: p) (simp_all add: metrics_loop_step del: metrics_loop.simps(2))

lemma metrics_loop_trace:
  "trace (metrics_loop w cs p) =
     trace p @ concat (map (\<lambda>i. contract_events w (reads p + 2 * i) (cs ! i)) [0..<length cs])"
proof (induction cs arbitrary: p)
  case Nil
  show ?case by simp
next
  case (Cons c cs)
  have "[0..<length (c # cs)] = 0 # map Suc [0..<length cs]"
    by (simp add: upt_conv_Cons map_Suc_upt del: upt_Suc)
  then show ?case
    by (simp add: metrics_loop_step Cons.IH comp_def del: metrics_loop.simps(2) upt_Suc)
qed

lemma metrics_loop_absent:
  "i < length (db p) \<Longrightarrow> contract (db p ! i) \<notin> set cs \<Longrightarrow>
   db (metrics_loop w cs p) ! i = db p ! i"
proof (induction cs arbitrary: p)
  case Nil
  show ?case by simp
next
  case (Cons c cs)
  then have "db (step_result w c p) ! i = db p ! i"
    by (simp add: step_result_row)
  with Cons show ?case
    by (simp add: metrics_loop_step del: metrics_loop.simps(2))
qed

lemma metrics_loop_row:
  "distinct cs \<Longrightarrow> j < length cs \<Longrightarrow> i < length (db p) \<Longrightarrow> contract (db p ! i) = cs ! j \<Longrightarrow>
   db (metrics_loop w cs p) ! i =
     (if write_error w (reads p + 2 * j) (cs ! j) = None
      then enriched w (reads p + 2 * j) (db p ! i) else db p ! i)"
proof (induction cs arbitrary: p j)
  case Nil
  then show ?case by simp
next
  case (Cons c cs)
  let ?p = "step_result w c p"
  show ?case
  proof (cases j)
    case 0
    with Cons.prems have c: "contract (db p ! i) = c" and notin: "c \<notin> set cs" by simp_all
    have row: "db ?p ! i =
        (if write_error w (reads p) c = None then enriched w (reads p) (db p ! i) else db p ! i)"
      using Cons.prems(3) c by (simp add: step_result_row)
    then have "contract (db ?p ! i) = c"
      using c by (simp add: enriched_def)
    with notin Cons.prems(3) have "db (metrics_loop w cs ?p) ! i = db ?p ! i"
      by (simp add: metrics_loop_absent)
    with row 0 show ?thesis
      by (simp add: metrics_loop_step del: metrics_loop.simps(2))
  next
    case (Suc k)
    with Cons.prems have k: "k < length cs" and ck: "contract (db p ! i) = cs ! k"
      and d: "distinct cs" and ne: "cs ! k \<noteq> c"
      by auto
    have same: "db ?p ! i = db p ! i"
      using Cons.prems(3) ck ne by (simp add: step_result_row)
    have "db (metrics_loop w cs ?p) ! i =
       (if write_error w (reads ?p + 2 * k) (cs ! k) = None
        then enriched w (reads ?p + 2 * k) (db ?p ! i)
        else db ?p ! i)"
      using Cons.IH [OF d k, of ?p] Cons.prems(3) ck same by simp
    with same Suc show ?thesis
      by (simp add: metrics_loop_step del: metrics_loop.simps(2))
  qed
qed

lemma update_blockchain_data_loop:
  "update_blockchain_data w s =
     metrics_loop w (get_all_contracts (scan_order w) s) \<lparr>db = s, reads = 0, trace = []\<rparr>"
  by (simp add: update_blockchain_data_def Let_def)

lemma listed_position:
  assumes "lists_each_once (scan_order w) s" "i < length s"
  shows "\<exists>j<length (get_all_contracts (scan_order w) s).
           get_all_contracts (scan_order w) s ! j = contract (s ! i)"
proof -
  have "contract (s ! i) \<in> set (stored_contracts s)"
    using assms(2) by (simp add: stored_contracts_def)
  with assms(1) have "contract (s ! i) \<in> set (get_all_contracts (scan_order w) s)"
    by (simp add: lists_each_once_def)
  then show ?thesis by (auto simp: in_set_conv_nth)
qed

lemma update_blockchain_data_row:
  assumes "lists_each_once (scan_order w) s" "i < length s"
    "j < length (get_all_contracts (scan_order w) s)"
    "get_all_contracts (scan_order w) s ! j = contract (s ! i)"
  shows "db (update_blockchain_data w s) ! i =
     (if write_error w (2 * j) (contract (s ! i)) = None then enriched w (2 * j) (s ! i)
      else s ! i)"
  using assms
    metrics_loop_row [of "get_all_contracts (scan_order w) s" j i
      "\<lparr>db = s, reads = 0, trace = []\<rparr>" w]
  by (simp add: update_blockchain_data_loop lists_each_once_def)

lemma update_blockchain_data_trace:
  "trace (update_blockchain_data w s) =
     concat (map (\<lambda>j. contract_events w (2 * j) (get_all_contracts (scan_order w) s ! j))
       [0..<length (get_all_contracts (scan_order w) s)])"
  by (simp add: update_blockchain_data_loop metrics_loop_trace)

lemma holders_failed_zero: "holders_failed w c \<Longrightarrow> fetch_holders_count w c = 0"
  by (auto simp: holders_failed_def fetch_holders_count_def holders_attempt_def reports_failure_def
      split: sum.splits)

lemma trace_calls:
  assumes "j < length (get_all_contracts (scan_order w) s)"
  shows "\<exists>pre post. trace (update_blockchain_data w s) =
           pre @ [HoldersCall (get_all_contracts (scan_order w) s ! j), Sleep,
                  TransfersCall (get_all_contracts (scan_order w) s ! j)] @ post"
proof -
  let ?cs = "get_all_contracts (scan_order w) s"
  let ?f = "\<lambda>j. contract_events w (2 * j) (?cs ! j)"
  have "[0..<length ?cs] = [0..<j] @ j # [Suc j..<length ?cs]"
    using assms by (metis le_add_diff_inverse less_imp_le_nat upt_add_eq_append upt_conv_Cons zero_le)
  then have "trace (update_blockchain_data w s) =
      concat (map ?f [0..<j]) @ ?f j @ concat (map ?f [Suc j..<length ?cs])"
    by (simp add: update_blockchain_data_trace)
  moreover have "\<exists>rest. ?f j = [HoldersCall (?cs ! j), Sleep, TransfersCall (?cs ! j)] @ rest"
    by (simp add: contract_events_def)
  ultimately show ?thesis
    by (metis append.assoc)
qed

subsection \<open>Failure handling\<close>

text \<open>
  C5. Zero-on-failure: when the holder query fails (its \<open>try\<close> block raises, a timeout being
  one of the exceptions of the request, or the reply has a status other than \<open>'1'\<close>),
  \<open>fetch_holders_count\<close> returns 0 and raises nothing. In a pass over a store that holds
  the contract (all of whose contracts \<open>get_all_contracts\<close> lists), the holder call is
  followed by the pause and the transfer call for the same contract, and, the write of
  that iteration going through, the row's \<open>holders\<close> is 0 afterwards.
\<close>

theorem zero_on_failure:
  "holders_failed w c \<Longrightarrow>
   fetch_holders_count w c = 0 \<and>
   (\<forall>s. \<forall>i<length s. lists_each_once (scan_order w) s \<and> contract (s ! i) = c \<longrightarrow>
      (\<exists>pre post. trace (update_blockchain_data w s) =
         pre @ [HoldersCall c, Sleep, TransfersCall c] @ post) \<and>
      (\<exists>j<length (get_all_contracts (scan_order w) s).
         get_all_contracts (scan_order w) s ! j = c \<and>
         (write_error w (2 * j) c = None \<longrightarrow>
            holders (db (update_blockchain_data w s) ! i) = Some 0)))"
proof -
  assume f: "holders_failed w c"
  then have z: "fetch_holders_count w c = 0" by (rule holders_failed_zero)
  have main: "(\<exists>pre post. trace (update_blockchain_data w s) =
           pre @ [HoldersCall c, Sleep, TransfersCall c] @ post) \<and>
        (\<exists>j<length (get_all_contracts (scan_order w) s).
           get_all_contracts (scan_order w) s ! j = c \<and>
           (write_error w (2 * j) c = None \<longrightarrow>
              holders (db (update_blockchain_data w s) ! i) = Some 0))"
    if i: "i < length s" and l: "lists_each_once (scan_order w) s" and c: "contract (s ! i) = c"
    for s i
  proof -
    from listed_position [OF l i] obtain j
      where j: "j < length (get_all_contracts (scan_order w) s)"
        "get_all_contracts (scan_order w) s ! j = contract (s ! i)"
      by blast
    have tr: "\<exists>pre post. trace (update_blockchain_data w s) =
           pre @ [HoldersCall c, Sleep, TransfersCall c] @ post"
      using trace_calls [OF j(1)] j(2) c by simp
    have h: "write_error w (2 * j) c = None \<longrightarrow>
        holders (db (update_blockchain_data w s) ! i) = Some 0"
      using update_blockchain_data_row [OF l i j] c z by (simp add: enriched_def)
    have "j < length (get_all_contracts (scan_order w) s) \<and>
        get_all_contracts (scan_order w) s ! j = c \<and>
        (write_error w (2 * j) c = None \<longrightarrow>
           holders (db (update_blockchain_data w s) ! i) = Some 0)"
      using j c h by simp
    then have "\<exists>j<length (get_all_contracts (scan_order w) s).
           get_all_contracts (scan_order w) s ! j = c \<and>
           (write_error w (2 * j) c = None \<longrightarrow>
              holders (db (update_blockchain_data w s) ! i) = Some 0)"
      by (rule exI)
    with tr show ?thesis by (rule conjI)
  qed
  show ?thesis
  proof (rule conjI)
    show "fetch_holders_count w c = 0" by (rule z)
  next
    show "\<forall>s. \<forall>i<length s. lists_each_once (scan_order w) s \<and> contract (s ! i) = c \<longrightarrow>
      (\<exists>pre post. trace (update_blockchain_data w s) =
         pre @ [HoldersCall c, Sleep, TransfersCall c] @ post) \<and>
      (\<exists>j<length (get_all_contracts (scan_order w) s).
         get_all_contracts (scan_order w) s ! j = c \<and>
         (write_error w (2 * j) c = None \<longrightarrow>
            holders (db (update_blockchain_data w s) ! i) = Some 0))"
    proof (intro allI impI)
      fix s i
      assume i: "i < length s"
        and a: "lists_each_once (scan_order w) s \<and> contract (s ! i) = c"
      from a have l: "lists_each_once (scan_order w) s" and c: "contract (s ! i) = c"
        by simp_all
      from main [OF i l c]
      show "(\<exists>pre post. trace (update_blockchain_data w s) =
         pre @ [HoldersCall c, Sleep, TransfersCall c] @ post) \<and>
        (\<exists>j<length (get_all_contracts (scan_order w) s).
         get_all_contracts (scan_order w) s ! j = c \<and>
         (write_error w (2 * j) c = None \<longrightarrow>
            holders (db (update_blockchain_data w s) ! i) = Some 0))" .
    qed
  qed
qed

theorem zero_on_failure_witness:
  "holders_failed timeout_world ''0xAAA'' \<and> (0::nat) < length [doge_row, king_row] \<and>
   lists_each_once (scan_order timeout_world) [doge_row, king_row] \<and>
   contract ([doge_row, king_row] ! 0) = ''0xAAA'' \<and>
   get_all_contracts (scan_order timeout_world) [doge_row, king_row] ! 0 = ''0xAAA'' \<and>
   write_error timeout_world (2 * 0) ''0xAAA'' = None \<and>
   fetch_holders_count timeout_world ''0xAAA'' = 0 \<and>
   holders (db (update_blockchain_data timeout_world [doge_row, king_row]) ! 0) = Some 0 \<and>
   transfers_24h (db (update_blockchain_data timeout_world [doge_row, king_row]) ! 0) = Some 1 \<and>
   take 3 (trace (update_blockchain_data timeout_world [doge_row, king_row])) =
     [HoldersCall ''0xAAA'', Sleep, TransfersCall ''0xAAA'']"
proof -
  have a: "holders_failed timeout_world ''0xAAA''" by code_simp
  have b: "lists_each_once (scan_order timeout_world) [doge_row, king_row]" by code_simp
  have c: "contract ([doge_row, king_row] ! 0) = ''0xAAA''"
    "get_all_contracts (scan_order timeout_world) [doge_row, king_row] ! 0 = ''0xAAA''"
    by code_simp+
  have d: "write_error timeout_world (2 * 0) ''0xAAA'' = None" by code_simp
  have e: "holders (db (update_blockchain_data timeout_world [doge_row, king_row]) ! 0) = Some 0"
    "transfers_24h (db (update_blockchain_data timeout_world [doge_row, king_row]) ! 0) = Some 1"
    by code_simp+
  have f: "take 3 (trace (update_blockchain_data timeout_world [doge_row, king_row])) =
     [HoldersCall ''0xAAA'', Sleep, TransfersCall ''0xAAA'']"
    by code_simp
  from zero_on_failure [OF a]
  have "fetch_holders_count timeout_world ''0xAAA'' = 0"
    by blast
  with a b c d e f show ?thesis by simp
qed

text \<open>
  C6. Batch isolation and ordering: a pass makes its calls contract by contract, in the
  order in which \<open>get_all_contracts\<close> returned them; it always returns, whatever writes
  fail; and every row whose own write goes through carries the metrics fetched for its
  contract and the time stamp of its own iteration (the \<open>j\<close>-th, where \<open>j\<close> is the place
  of its contract in the list), whether or not the write of any other contract failed. A
  row whose write fails is left as it was.
\<close>

theorem batch_isolation:
  "lists_each_once (scan_order w) s \<Longrightarrow>
   trace (update_blockchain_data w s) =
     concat (map (\<lambda>j. contract_events w (2 * j) (get_all_contracts (scan_order w) s ! j))
       [0..<length (get_all_contracts (scan_order w) s)]) \<and>
   length (db (update_blockchain_data w s)) = length s \<and>
   (\<forall>i<length s. \<exists>j<length (get_all_contracts (scan_order w) s).
      get_all_contracts (scan_order w) s ! j = contract (s ! i) \<and>
      db (update_blockchain_data w s) ! i =
        (if write_error w (2 * j) (contract (s ! i)) = None then enriched w (2 * j) (s ! i)
         else s ! i))"
proof -
  assume l: "lists_each_once (scan_order w) s"
  have "\<exists>j<length (get_all_contracts (scan_order w) s).
      get_all_contracts (scan_order w) s ! j = contract (s ! i) \<and>
      db (update_blockchain_data w s) ! i =
        (if write_error w (2 * j) (contract (s ! i)) = None then enriched w (2 * j) (s ! i)
         else s ! i)"
    if i: "i < length s" for i
  proof -
    from listed_position [OF l i] obtain j
      where j: "j < length (get_all_contracts (scan_order w) s)"
        "get_all_contracts (scan_order w) s ! j = contract (s ! i)"
      by blast
    with update_blockchain_data_row [OF l i j] show ?thesis by blast
  qed
  moreover have "length (db (update_blockchain_data w s)) = length s"
    by (simp add: update_blockchain_data_loop metrics_loop_length)
  ultimately show ?thesis
    using update_blockchain_data_trace [of w s] by blast
qed

theorem batch_isolation_witness:
  "lists_each_once (scan_order faulty_world) [doge_row, king_row] \<and>
   get_all_contracts (scan_order faulty_world) [doge_row, king_row] = [''0xBBB'', ''0xAAA''] \<and>
   write_error faulty_world (2 * 0) ''0xBBB'' = Some OperationalError \<and>
   write_error faulty_world (2 * 1) ''0xAAA'' = None \<and>
   db (update_blockchain_data faulty_world [doge_row, king_row]) ! 1 = king_row \<and>
   db (update_blockchain_data faulty_world [doge_row, king_row]) ! 0 =
     doge_row\<lparr>holders := Some 2, transfers_24h := Some 1, last_updated := Some 2000003\<rparr> \<and>
   trace (update_blockchain_data faulty_world [doge_row, king_row]) =
     [HoldersCall ''0xBBB'', Sleep, TransfersCall ''0xBBB'', Sleep,
      MetricsWrite ''0xBBB'' 2 1 2000001, ErrorLogged ''0xBBB'',
      HoldersCall ''0xAAA'', Sleep, TransfersCall ''0xAAA'', Sleep,
      MetricsWrite ''0xAAA'' 2 1 2000003]"
proof -
  have a: "lists_each_once (scan_order faulty_world) [doge_row, king_row]" by code_simp
  have b: "get_all_contracts (scan_order faulty_world) [doge_row, king_row] = [''0xBBB'', ''0xAAA'']"
    by code_simp
  have c: "write_error faulty_world (2 * 0) ''0xBBB'' = Some OperationalError"
    "write_error faulty_world (2 * 1) ''0xAAA'' = None"
    by code_simp+
  have d: "db (update_blockchain_data faulty_world [doge_row, king_row]) ! 1 = king_row"
    "db (update_blockchain_data faulty_world [doge_row, king_row]) ! 0 =
       doge_row\<lparr>holders := Some 2, transfers_24h := Some 1, last_updated := Some 2000003\<rparr>"
    by code_simp+
  have e: "concat (map (\<lambda>j. contract_events faulty_world (2 * j)
              (get_all_contracts (scan_order faulty_world) [doge_row, king_row] ! j))
            [0..<length (get_all_contracts (scan_order faulty_world) [doge_row, king_row])]) =
     [HoldersCall ''0xBBB'', Sleep, TransfersCall ''0xBBB'', Sleep,
      MetricsWrite ''0xBBB'' 2 1 2000001, ErrorLogged ''0xBBB'',
      HoldersCall ''0xAAA'', Sleep, TransfersCall ''0xAAA'', Sleep,
      MetricsWrite ''0xAAA'' 2 1 2000003]"
    by code_simp
  from batch_isolation [OF a]
  have "trace (update_blockchain_data faulty_world [doge_row, king_row]) =
     concat (map (\<lambda>j. contract_events faulty_world (2 * j)
              (get_all_contracts (scan_order faulty_world) [doge_row, king_row] ! j))
            [0..<length (get_all_contracts (scan_order faulty_world) [doge_row, king_row])])"
    by blast
  with a b c d e show ?thesis by simp
qed

section \<open>Properties of the listing pass\<close>

subsection \<open>Auxiliary facts\<close>

text \<open>
  Every record \<open>scrape_grafun\<close> returns has a contract that starts with \<open>0x\<close>; an element
  without a link to bscscan whose \<open>td.contract\<close> holds no \<open>a\<close> gets the zero address; and
  two records with one contract make one row.
\<close>

lemma collect_coins_prefix:
  "c \<in> set (collect_coins now es) \<Longrightarrow> startswith_0x (contract c)"
proof (induction es)
  case Nil
  then show ?case by simp
next
  case (Cons e es)
  show ?case
  proof (cases "extract_coin now e")
    case (Inl ex)
    with Cons show ?thesis by simp
  next
    case (Inr r)
    show ?thesis
    proof (cases r)
      case None
      with Inr Cons show ?thesis by simp
    next
      case (Some d)
      with Inr have "startswith_0x (contract d)"
        by (auto simp: extract_coin_def Let_def split: sum.splits if_splits)
      with Some Inr Cons show ?thesis by auto
    qed
  qed
qed

lemma scrape_grafun_prefix:
  "c \<in> set (scrape_grafun reply now) \<Longrightarrow> startswith_0x (contract c)"
  by (auto simp: scrape_grafun_def Let_def collect_coins_prefix split: sum.splits if_splits)

lemma extract_coin_default:
  "bscscan_link e = None \<Longrightarrow> contract_td e = Some None \<Longrightarrow> extract_coin now e = Inr r \<Longrightarrow>
   \<exists>c. r = Some c \<and> contract c = zero_address"
  by (auto simp: extract_coin_def find_contract_element_def Let_def zero_address_def
      startswith_0x_def split: sum.splits)

lemma same_contract_one_row:
  "contract c1 = contract c2 \<Longrightarrow>
   stored_contracts (update_coin_data [c1, c2] s) = stored_contracts (update_coin_data [c1] s)"
  by (simp add: stored_contracts_upsert)

lemma scrape_grafun_default_contract:
  "map contract (scrape_grafun (Inr (page_of_rows [unlinked_row ''A'', unlinked_row ''B''])) 1000) =
     [zero_address, zero_address] \<and>
   length (update_coin_data
     (scrape_grafun (Inr (page_of_rows [unlinked_row ''A'', unlinked_row ''B''])) 1000) []) = 1"
  by code_simp

subsection \<open>A pass without records\<close>

text \<open>
  C7. When the fetch fails (\<open>reply\<close> is an exception) or \<open>scrape_grafun\<close> returns the empty
  list for any other reason, \<open>run_scraper\<close> hands no batch to \<open>update_coin_data\<close> and the
  store it returns is the store it was given.
\<close>

theorem run_scraper_no_write:
  "isl reply \<or> scrape_grafun reply now = [] \<Longrightarrow>
   scrape_grafun reply now = [] \<and> run_scraper reply now s = (s, [])"
  by (cases reply) (auto simp: scrape_grafun_def run_scraper_def)

theorem run_scraper_no_write_witness:
  "isl (Inl RequestException :: exn + page) \<and>
   run_scraper (Inl RequestException) 1000 [doge_row, king_row] = ([doge_row, king_row], []) \<and>
   scrape_grafun (Inr (page_of_cards [])) 1000 = [] \<and>
   run_scraper (Inr (page_of_cards [])) 1000 [doge_row, king_row] = ([doge_row, king_row], [])"
proof -
  have a: "isl (Inl RequestException :: exn + page)" by simp
  have b: "scrape_grafun (Inr (page_of_cards [])) 1000 = []" by code_simp
  show ?thesis
    using a b
      run_scraper_no_write [where reply = "Inl RequestException" and now = 1000
        and s = "[doge_row, king_row]"]
      run_scraper_no_write [where reply = "Inr (page_of_cards [])" and now = 1000
        and s = "[doge_row, king_row]"]
    by simp
qed

subsection \<open>Elements without a contract link\<close>

text \<open>
  C10. The zero address is the default for an element without a contract link, but the
  code reaches that default only when the element has a \<open>td.contract\<close> cell. An element
  with neither a link to bscscan nor such a cell, like \<open>bare_card\<close>, makes the loop body
  call \<open>find\<close> on \<open>None\<close>: the \<open>AttributeError\<close> is caught, the element is skipped, and no
  record, with the zero address or any other, is produced for it.
\<close>

theorem scrape_grafun_missing_contract_cell:
  "bscscan_link bare_card = None \<and> contract_td bare_card = None \<and>
   extract_coin 1000 bare_card = Inl AttributeError \<and>
   scrape_grafun (Inr (page_of_cards [bare_card, bare_card])) 1000 = []"
  by code_simp

end
